theory Spec2Isabelle
  imports Complex_Main
begin

section \<open>Values, exceptions and data frames\<close>

text \<open>
  The program computes on 64-bit floats. They are modelled as exact reals, with one extra
  value \<open>NaN\<close> where the program can produce it (the mean of an empty column); rounding
  is not modelled. Comparisons against \<open>NaN\<close> are false and arithmetic on \<open>NaN\<close> gives
  \<open>NaN\<close>, as in Python.
\<close>

datatype pyfloat = Fin real | NaN

fun fadd :: "pyfloat \<Rightarrow> pyfloat \<Rightarrow> pyfloat" where
  "fadd (Fin a) (Fin b) = Fin (a + b)"
| "fadd _ _ = NaN"

fun fmul :: "pyfloat \<Rightarrow> pyfloat \<Rightarrow> pyfloat" where
  "fmul (Fin a) (Fin b) = Fin (a * b)"
| "fmul _ _ = NaN"

fun fgt :: "pyfloat \<Rightarrow> pyfloat \<Rightarrow> bool" where
  "fgt (Fin a) (Fin b) = (b < a)"
| "fgt _ _ = False"

text \<open>A Python exception, carrying the text that \<open>str(e)\<close> gives.\<close>

datatype exn = IndexError string | ValueError string | TypeError string | OtherError string

fun str :: "exn \<Rightarrow> string" where
  "str (IndexError m) = m"
| "str (ValueError m) = m"
| "str (TypeError m) = m"
| "str (OtherError m) = m"

text \<open>
  A date is a whole day, counted as a day number; in the program it is a pandas
  Timestamp. A row of \<open>historical_data\<close> (the frame
  indexed by date, backend.py lines 25-31) and a row of \<open>forecast_data\<close> (lines 37-40):
\<close>

record observation =
  date :: int
  pH :: real
  DO :: real
  rainfall :: real
  fecal_coliform :: real

record forecast_point =
  fc_date :: int
  forecast_fecal :: pyfloat

text \<open>The 50 x 50 x 3 array of backend.py line 43: rows of pixels of three channels.\<close>

type_synonym image = "real list list list"

text \<open>The dictionary returned by \<open>generate_data\<close> (backend.py lines 56-61).\<close>

record payload =
  historical_data :: "observation list"
  forecast_data :: "forecast_point list"
  satellite_image_base64 :: string
  latest_fecal :: real

text \<open>
  What the program takes from outside itself: the current day, the random draws of numpy
  (the \<open>k\<close>-th element of each array drawn), and a library routine that is not part of
  the repository and may raise: the PNG and base64 encoding of the image (lines 52-54).
\<close>

record world =
  today :: int
  normal_pH :: "nat \<Rightarrow> real"
  normal_DO :: "nat \<Rightarrow> real"
  exponential_rain :: "nat \<Rightarrow> real"
  lognormal_fecal :: "nat \<Rightarrow> real"
  imsave_b64 :: "image \<Rightarrow> exn + string"

subsection \<open>pandas and numpy operations used by the backend\<close>

text \<open>\<open>pd.date_range(end=e, periods=n)\<close>: the \<open>n\<close> consecutive days that end on \<open>e\<close>.\<close>

definition date_range :: "int \<Rightarrow> nat \<Rightarrow> int list" where
  "date_range e periods = map (\<lambda>k. e - int (periods - 1 - k)) [0..<periods]"

text \<open>\<open>a.clip(lo, hi)\<close> on one element: \<open>minimum(maximum(a, lo), hi)\<close>.\<close>

definition clip :: "real \<Rightarrow> real \<Rightarrow> real \<Rightarrow> real" where
  "clip x lo hi = min (max x lo) hi"

text \<open>\<open>pd.DataFrame({...}).set_index('date')\<close>: columns of unequal length raise.\<close>

definition DataFrame ::
  "int list \<Rightarrow> real list \<Rightarrow> real list \<Rightarrow> real list \<Rightarrow> real list \<Rightarrow> exn + observation list" where
  "DataFrame dates pH_col DO_col rain_col fecal_col =
     (if length pH_col = length dates \<and> length DO_col = length dates
         \<and> length rain_col = length dates \<and> length fecal_col = length dates
      then Inr (map (\<lambda>k. \<lparr>date = dates ! k, pH = pH_col ! k, DO = DO_col ! k,
                           rainfall = rain_col ! k, fecal_coliform = fecal_col ! k\<rparr>)
                    [0..<length dates])
      else Inl (ValueError ''All arrays must be of the same length''))"

text \<open>\<open>s.iloc[-1]\<close> and \<open>dates[-1]\<close>: the last element, IndexError on an empty one.\<close>

definition iloc_last :: "'a list \<Rightarrow> exn + 'a" where
  "iloc_last xs =
     (if xs = [] then Inl (IndexError ''single positional indexer is out-of-bounds'')
      else Inr (last xs))"

definition index_last :: "'a list \<Rightarrow> exn + 'a" where
  "index_last xs =
     (if xs = [] then Inl (IndexError ''index -1 is out of bounds for axis 0 with size 0'')
      else Inr (last xs))"

text \<open>\<open>s.diff()\<close>: NaN in the first row, then each row minus the row before it.\<close>

fun diff :: "real list \<Rightarrow> pyfloat list" where
  "diff [] = []"
| "diff (x # xs) = NaN # map (\<lambda>(a, b). Fin (b - a)) (zip (x # xs) xs)"

text \<open>\<open>s.dropna()\<close>: the rows that are not NaN.\<close>

fun dropna :: "pyfloat list \<Rightarrow> real list" where
  "dropna [] = []"
| "dropna (NaN # fs) = dropna fs"
| "dropna (Fin r # fs) = r # dropna fs"

text \<open>\<open>np.mean(s)\<close>: the sum over the count; NaN for an empty column.\<close>

definition np_mean :: "real list \<Rightarrow> pyfloat" where
  "np_mean xs = (if xs = [] then NaN else Fin (sum_list xs / real (length xs)))"

section \<open>Backend: backend.py\<close>

subsection \<open>Series generation (lines 19-31)\<close>

definition series_generator :: "world \<Rightarrow> int list \<times> (exn + observation list)" where
  "series_generator w =
     (let dates = date_range (today w) 30;
          pH_col = map (normal_pH w) [0..<30];
          DO_col = map (normal_DO w) [0..<30];
          rain_col = map (exponential_rain w) [0..<30];
          fecal_col = map (\<lambda>(c, r). c + r)
                        (zip (map (\<lambda>x. clip x 100 1000) (map (lognormal_fecal w) [0..<30]))
                             (map (\<lambda>r. r * 0.5) rain_col))
      in (dates, DataFrame dates pH_col DO_col rain_col fecal_col))"

subsection \<open>Trend forecast (lines 33-40)\<close>

definition trend_forecaster :: "int list \<Rightarrow> observation list \<Rightarrow> exn + forecast_point list" where
  "trend_forecaster dates hist =
     (case iloc_last (map fecal_coliform hist) of
        Inl e \<Rightarrow> Inl e
      | Inr last_fecal \<Rightarrow>
          (let trend = np_mean (dropna (diff (map fecal_coliform hist)))
           in case index_last dates of
                Inl e \<Rightarrow> Inl e
              | Inr d \<Rightarrow>
                  Inr (map (\<lambda>i. \<lparr>fc_date = d + (int i + 1),
                                  forecast_fecal =
                                    fadd (Fin last_fecal) (fmul trend (Fin (real i + 1)))\<rparr>)
                           [0, 1, 2])))"

subsection \<open>Severity image (lines 43-50)\<close>

definition zeros :: image where
  "zeros = replicate 50 (replicate 50 (replicate 3 0))"

text \<open>\<open>image[:, :, c] = v\<close>: channel \<open>c\<close> of every pixel becomes \<open>v\<close>.\<close>

definition set_channel :: "nat \<Rightarrow> real \<Rightarrow> image \<Rightarrow> image" where
  "set_channel c v img = map (map (\<lambda>px. px[c := v])) img"

definition severity_image :: "real \<Rightarrow> image" where
  "severity_image fecal =
     (if fecal < 400 then set_channel 1 1.0 zeros
      else if fecal < 800 then set_channel 1 1.0 (set_channel 0 1.0 zeros)
      else set_channel 0 1.0 zeros)"

subsection \<open>generate_data (lines 17-64)\<close>

text \<open>The body of the \<open>try\<close> block: the first step that raises ends it.\<close>

definition generate_data_body :: "world \<Rightarrow> exn + payload" where
  "generate_data_body w =
     (case series_generator w of
        (dates, Inl e) \<Rightarrow> Inl e
      | (dates, Inr hist) \<Rightarrow>
     (case trend_forecaster dates hist of
        Inl e \<Rightarrow> Inl e
      | Inr fc \<Rightarrow>
     (case iloc_last (map fecal_coliform hist) of
        Inl e \<Rightarrow> Inl e
      | Inr latest \<Rightarrow>
     (case imsave_b64 w (severity_image latest) of
        Inl e \<Rightarrow> Inl e
      | Inr image_base64 \<Rightarrow>
          Inr \<lparr>historical_data = hist, forecast_data = fc,
               satellite_image_base64 = image_base64, latest_fecal = latest\<rparr>))))"

text \<open>
  The \<open>except\<close> clause logs the exception and raises it again. The log is the list of
  messages written so far.
\<close>

definition generate_data :: "world \<Rightarrow> string list \<Rightarrow> (exn + payload) \<times> string list" where
  "generate_data w lg =
     (case generate_data_body w of
        Inr p \<Rightarrow> (Inr p, lg)
      | Inl e \<Rightarrow> (Inl e, lg @ [''Error in generate_data: '' @ str e]))"

subsection \<open>The /data endpoint (lines 66-76)\<close>

datatype content = DataContent payload | ErrorContent string

record response =
  body :: content
  status_code :: nat

text \<open>
  \<open>json.dumps\<close> on the payload, as \<open>JSONResponse\<close> calls it: every record of
  \<open>historical_data\<close> and of \<open>forecast_data\<close> holds its date as a pandas Timestamp
  (lines 57-58), which the encoder does not accept, so the first record raises a
  TypeError. A payload without records is rendered; its text is not modelled.
\<close>

definition json_dumps :: "payload \<Rightarrow> exn + unit" where
  "json_dumps p =
     (if historical_data p = [] \<and> forecast_data p = [] then Inr ()
      else Inl (TypeError ''Object of type Timestamp is not JSON serializable''))"

text \<open>
  \<open>JSONResponse(content, status_code)\<close> renders its content when it is built. Rendering
  the payload is \<open>json_dumps\<close> and may raise; rendering the dictionary with the one
  string under \<open>error\<close> does not.
\<close>

definition JSONResponse :: "content \<Rightarrow> nat \<Rightarrow> exn + response" where
  "JSONResponse c sc =
     (case c of
        ErrorContent m \<Rightarrow> Inr \<lparr>body = c, status_code = sc\<rparr>
      | DataContent p \<Rightarrow>
          (case json_dumps p of
             Inl e \<Rightarrow> Inl e
           | Inr _ \<Rightarrow> Inr \<lparr>body = c, status_code = sc\<rparr>))"

text \<open>The \<open>except\<close> clause of the endpoint (lines 71-76).\<close>

definition endpoint_handler :: "exn \<Rightarrow> string list \<Rightarrow> (exn + response) \<times> string list" where
  "endpoint_handler e lg =
     (JSONResponse (ErrorContent (''Internal Server Error: '' @ str e)) 500,
      lg @ [''Error in /data endpoint: '' @ str e])"

definition get_water_quality_data :: "world \<Rightarrow> string list \<Rightarrow> (exn + response) \<times> string list" where
  "get_water_quality_data w lg =
     (case generate_data w lg of
        (Inl e, lg1) \<Rightarrow> endpoint_handler e lg1
      | (Inr p, lg1) \<Rightarrow>
          (case JSONResponse (DataContent p) 200 of
             Inl e \<Rightarrow> endpoint_handler e lg1
           | Inr r \<Rightarrow> (Inr r, lg1)))"

section \<open>Frontend: App.py\<close>

subsection \<open>make_river_map (lines 13-30)\<close>

text \<open>
  Of the map only the colour matters here: the one colour name computed on line 23 is
  given to the polyline (line 24) and to the marker's icon (line 28).
\<close>

record river_map =
  polyline_color :: string
  marker_icon_color :: string

definition make_river_map :: "real \<Rightarrow> river_map" where
  "make_river_map fecal_value =
     (let color = (if fecal_value < 400 then ''green''
                   else if fecal_value < 800 then ''yellow'' else ''red'')
      in \<lparr>polyline_color = color, marker_icon_color = color\<rparr>)"

subsection \<open>check_alerts (lines 33-39)\<close>

text \<open>
  The first argument is Python's formatting of a float inside an f-string, which the
  warning message uses for the threshold.
\<close>

definition warning_alert :: "(real \<Rightarrow> string) \<Rightarrow> real \<Rightarrow> string" where
  "warning_alert fmt threshold =
     ''Warning: Forecasted fecal coliform above '' @ fmt threshold @ '' CFU/100mL.''"

definition critical_alert :: string where
  "critical_alert = ''Critical: High pollution risk detected. Take action.''"

definition check_alerts :: "(real \<Rightarrow> string) \<Rightarrow> forecast_point list \<Rightarrow> real \<Rightarrow> string list" where
  "check_alerts fmt fc threshold =
     (let alerts = [];
          alerts = (if list_ex (\<lambda>p. fgt (forecast_fecal p) (Fin threshold)) fc
                    then alerts @ [warning_alert fmt threshold] else alerts);
          alerts = (if list_ex (\<lambda>p. fgt (forecast_fecal p) (Fin 800)) fc
                    then alerts @ [critical_alert] else alerts)
      in alerts)"

section \<open>Reading the specification\<close>

text \<open>A 50 x 50 image of one colour, and the three colours by their channels.\<close>

definition uniform_image :: "real list \<Rightarrow> image" where
  "uniform_image px = replicate 50 (replicate 50 px)"

definition green :: "real list" where "green = [0, 1, 0]"
definition yellow :: "real list" where "yellow = [1, 1, 0]"
definition red :: "real list" where "red = [1, 0, 0]"

text \<open>The channels that the frontend's colour names stand for.\<close>

fun rgb_of_name :: "string \<Rightarrow> real list option" where
  "rgb_of_name s =
     (if s = ''green'' then Some green
      else if s = ''yellow'' then Some yellow
      else if s = ''red'' then Some red else None)"

text \<open>Clamping to the closed range from 100 to 1000, as the specification words it.\<close>

definition clamp_100_1000 :: "real \<Rightarrow> real" where
  "clamp_100_1000 x = (if x < 100 then 100 else if 1000 < x then 1000 else x)"

text \<open>
  The mean of the consecutive differences of a series: a series of \<open>n\<close> values has the
  \<open>n - 1\<close> differences \<open>xs ! (k + 1) - xs ! k\<close> for \<open>k < n - 1\<close>.
\<close>

definition mean_first_difference :: "real list \<Rightarrow> real" where
  "mean_first_difference xs =
     (\<Sum>k<length xs - 1. xs ! (k + 1) - xs ! k) / real (length xs - 1)"

text \<open>
  The forecast as the specification words it: three points on the three days after the
  last historical date, point \<open>i\<close> holding \<open>last + trend * i\<close>.
\<close>

definition linear_forecast :: "observation list \<Rightarrow> forecast_point list" where
  "linear_forecast hist =
     map (\<lambda>i. \<lparr>fc_date = date (last hist) + int i,
                forecast_fecal =
                  Fin (fecal_coliform (last hist)
                       + mean_first_difference (map fecal_coliform hist) * real i)\<rparr>)
         [1, 2, 3]"

text \<open>
  Row \<open>k\<close> of the generated series as the specification describes it: the day
  \<open>29 - k\<close> days before today, the draws of that day, and the clamped log-normal draw
  plus half of that day's rainfall.
\<close>

definition generated_row :: "world \<Rightarrow> nat \<Rightarrow> observation" where
  "generated_row w k =
     \<lparr>date = today w - 29 + int k, pH = normal_pH w k, DO = normal_DO w k,
      rainfall = exponential_rain w k,
      fecal_coliform = clamp_100_1000 (lognormal_fecal w k) + 0.5 * exponential_rain w k\<rparr>"

text \<open>Some forecast value is a number strictly above \<open>t\<close>.\<close>

definition exceeds :: "forecast_point list \<Rightarrow> real \<Rightarrow> bool" where
  "exceeds fc t = (\<exists>p \<in> set fc. \<exists>r. forecast_fecal p = Fin r \<and> t < r)"

subsection \<open>Concrete worlds\<close>

text \<open>
  A world in which the image is encoded, one with heavy rain every day and one in which
  the image cannot be encoded.
\<close>

definition calm_world :: world where
  "calm_world =
     \<lparr>today = 100, normal_pH = (\<lambda>k. 7), normal_DO = (\<lambda>k. 8),
      exponential_rain = (\<lambda>k. 4), lognormal_fecal = (\<lambda>k. 20),
      imsave_b64 = (\<lambda>img. Inr ''iVBORw0KGgo='')\<rparr>"

definition storm_world :: world where
  "storm_world = calm_world\<lparr>exponential_rain := (\<lambda>k. 2000)\<rparr>"

definition broken_image_world :: world where
  "broken_image_world =
     calm_world\<lparr>imsave_b64 := (\<lambda>img. Inl (OtherError ''cannot write image''))\<rparr>"

section \<open>The severity image\<close>

lemma zeros_uniform: "zeros = uniform_image [0, 0, 0]"
  by (simp add: zeros_def uniform_image_def numeral_3_eq_3)

lemma set_channel_uniform:
  "set_channel c v (uniform_image px) = uniform_image (px[c := v])"
  by (simp add: set_channel_def uniform_image_def)

lemma severity_image_low: "fecal < 400 \<Longrightarrow> severity_image fecal = uniform_image green"
  by (simp add: severity_image_def zeros_uniform set_channel_uniform green_def)

lemma severity_image_medium:
  "400 \<le> fecal \<Longrightarrow> fecal < 800 \<Longrightarrow> severity_image fecal = uniform_image yellow"
  by (simp add: severity_image_def zeros_uniform set_channel_uniform yellow_def)

lemma severity_image_high: "800 \<le> fecal \<Longrightarrow> severity_image fecal = uniform_image red"
  by (simp add: severity_image_def zeros_uniform set_channel_uniform red_def)

lemma uniform_image_inject: "uniform_image a = uniform_image b \<longleftrightarrow> a = b"
  by (simp add: uniform_image_def)

lemma colours_distinct: "green \<noteq> yellow" "green \<noteq> red" "yellow \<noteq> red"
  by (simp_all add: green_def yellow_def red_def)

text \<open>
  Claim C2. Every real value falls in exactly one band: below 400 the image is fully
  green, from 400 up to but not including 800 it is fully yellow (red and green channels
  at 1, blue at 0), from 800 on it is fully red. So 400 itself is yellow and 800 itself
  is red, and since the three images differ, the bands exclude one another.
\<close>

theorem severity_classifier_bands:
  "(fecal < 400 \<longrightarrow> severity_image fecal = uniform_image green)
   \<and> (400 \<le> fecal \<and> fecal < 800 \<longrightarrow> severity_image fecal = uniform_image yellow)
   \<and> (800 \<le> fecal \<longrightarrow> severity_image fecal = uniform_image red)
   \<and> severity_image 400 = uniform_image yellow
   \<and> severity_image 800 = uniform_image red
   \<and> (severity_image fecal = uniform_image green \<longleftrightarrow> fecal < 400)
   \<and> (severity_image fecal = uniform_image yellow \<longleftrightarrow> 400 \<le> fecal \<and> fecal < 800)
   \<and> (severity_image fecal = uniform_image red \<longleftrightarrow> 800 \<le> fecal)
   \<and> green = [0, 1, 0] \<and> yellow = [1, 1, 0] \<and> red = [1, 0, 0]"
proof -
  consider (low) "fecal < 400" | (medium) "400 \<le> fecal" "fecal < 800" | (high) "800 \<le> fecal"
    by linarith
  then have bands:
    "(severity_image fecal = uniform_image green \<longleftrightarrow> fecal < 400)
     \<and> (severity_image fecal = uniform_image yellow \<longleftrightarrow> 400 \<le> fecal \<and> fecal < 800)
     \<and> (severity_image fecal = uniform_image red \<longleftrightarrow> 800 \<le> fecal)"
  proof cases
    case low
    then show ?thesis
      using colours_distinct by (simp add: severity_image_low uniform_image_inject)
  next
    case medium
    then show ?thesis
      using colours_distinct by (simp add: severity_image_medium uniform_image_inject)
  next
    case high
    then show ?thesis
      using colours_distinct by (simp add: severity_image_high uniform_image_inject)
  qed
  have "severity_image 400 = uniform_image yellow" "severity_image 800 = uniform_image red"
    by (simp_all add: severity_image_medium severity_image_high)
  with bands show ?thesis
    by (simp add: severity_image_low severity_image_medium severity_image_high
        green_def yellow_def red_def)
qed

theorem severity_classifier_bands_witness:
  "severity_image 399.999 = uniform_image green
   \<and> severity_image 400.0 = uniform_image yellow
   \<and> severity_image 799.999 = uniform_image yellow
   \<and> severity_image 800.0 = uniform_image red
   \<and> severity_image 0 \<noteq> uniform_image red"
  using severity_classifier_bands [of "399.999"] severity_classifier_bands [of "799.999"]
    severity_classifier_bands [of 0]
  by auto

section \<open>The colour of the river map\<close>

lemma river_map_colour:
  "polyline_color (make_river_map v) =
     (if v < 400 then ''green'' else if v < 800 then ''yellow'' else ''red'')"
  "marker_icon_color (make_river_map v) = polyline_color (make_river_map v)"
  by (simp_all add: make_river_map_def Let_def)

text \<open>
  Claim C9. For every real value the backend's image and the frontend's polyline and
  marker colour choose the same band: the colour name of the map stands for channels
  \<open>px\<close> exactly when the image is uniformly \<open>px\<close>; both are green below 400, yellow
  from 400 up to but not including 800, and red from 800 on.
\<close>

theorem classifier_matches_river_map:
  "(rgb_of_name (polyline_color (make_river_map v)) = Some px
      \<longleftrightarrow> severity_image v = uniform_image px)
   \<and> marker_icon_color (make_river_map v) = polyline_color (make_river_map v)
   \<and> (polyline_color (make_river_map v) = ''green'' \<longleftrightarrow> v < 400)
   \<and> (polyline_color (make_river_map v) = ''yellow'' \<longleftrightarrow> 400 \<le> v \<and> v < 800)
   \<and> (polyline_color (make_river_map v) = ''red'' \<longleftrightarrow> 800 \<le> v)
   \<and> (severity_image v = uniform_image green \<longleftrightarrow> v < 400)
   \<and> (severity_image v = uniform_image yellow \<longleftrightarrow> 400 \<le> v \<and> v < 800)
   \<and> (severity_image v = uniform_image red \<longleftrightarrow> 800 \<le> v)"
proof -
  consider (low) "v < 400" | (medium) "400 \<le> v" "v < 800" | (high) "800 \<le> v"
    by linarith
  then show ?thesis
  proof cases
    case low
    then show ?thesis
      using colours_distinct
      by (auto simp add: river_map_colour severity_image_low uniform_image_inject)
  next
    case medium
    then show ?thesis
      using colours_distinct
      by (auto simp add: river_map_colour severity_image_medium uniform_image_inject)
  next
    case high
    then show ?thesis
      using colours_distinct
      by (auto simp add: river_map_colour severity_image_high uniform_image_inject)
  qed
qed

theorem classifier_matches_river_map_witness:
  "polyline_color (make_river_map 400) = ''yellow''
   \<and> marker_icon_color (make_river_map 400) = ''yellow''
   \<and> severity_image 400 = uniform_image yellow
   \<and> polyline_color (make_river_map 1234.5) = ''red''
   \<and> severity_image 1234.5 = uniform_image red
   \<and> polyline_color (make_river_map 0) = ''green''
   \<and> severity_image 0 = uniform_image green"
  using classifier_matches_river_map [of 400 yellow]
    classifier_matches_river_map [of "1234.5" red]
    classifier_matches_river_map [of 0 green]
  by simp

section \<open>Alerts\<close>

lemma fgt_Fin: "fgt x (Fin t) \<longleftrightarrow> (\<exists>r. x = Fin r \<and> t < r)"
  by (cases x) auto

lemma list_ex_fgt: "list_ex (\<lambda>p. fgt (forecast_fecal p) (Fin t)) fc \<longleftrightarrow> exceeds fc t"
  by (simp add: list_ex_iff fgt_Fin exceeds_def)

lemma check_alerts_eq:
  "check_alerts fmt fc t =
     (if exceeds fc t then [warning_alert fmt t] else [])
     @ (if exceeds fc 800 then [critical_alert] else [])"
  by (simp add: check_alerts_def list_ex_fgt)

lemma warning_not_critical: "warning_alert fmt t \<noteq> critical_alert"
  by (simp add: warning_alert_def critical_alert_def)

lemma exceeds_mono: "t \<le> u \<Longrightarrow> exceeds fc u \<Longrightarrow> exceeds fc t"
  by (fastforce simp add: exceeds_def)

text \<open>
  Claim C6. For every forecast and every threshold (so for every non-negative one) the
  alerts are the warning, present exactly when some forecast value is strictly above the
  threshold, followed by the critical alert, present exactly when some forecast value is
  strictly above 800. The two checks do not depend on each other, the list has at most
  two entries, and when both fire the warning comes first.
\<close>

theorem check_alerts_spec:
  "check_alerts fmt fc t =
     (if exceeds fc t then [warning_alert fmt t] else [])
     @ (if exceeds fc 800 then [critical_alert] else [])
   \<and> length (check_alerts fmt fc t) \<le> 2
   \<and> (warning_alert fmt t \<in> set (check_alerts fmt fc t) \<longleftrightarrow> exceeds fc t)
   \<and> (critical_alert \<in> set (check_alerts fmt fc t) \<longleftrightarrow> exceeds fc 800)
   \<and> (exceeds fc t \<and> exceeds fc 800
        \<longrightarrow> check_alerts fmt fc t = [warning_alert fmt t, critical_alert])"
  using warning_not_critical [of fmt t] by (auto simp add: check_alerts_eq)

theorem check_alerts_spec_witness:
  "check_alerts (\<lambda>x. ''400.0'')
     [\<lparr>fc_date = 1, forecast_fecal = Fin 390\<rparr>, \<lparr>fc_date = 2, forecast_fecal = Fin 410\<rparr>,
      \<lparr>fc_date = 3, forecast_fecal = Fin 790\<rparr>] 400
     = [''Warning: Forecasted fecal coliform above 400.0 CFU/100mL.'']
   \<and> check_alerts (\<lambda>x. ''400.0'')
     [\<lparr>fc_date = 1, forecast_fecal = Fin 900\<rparr>, \<lparr>fc_date = 2, forecast_fecal = Fin 100\<rparr>,
      \<lparr>fc_date = 3, forecast_fecal = Fin 100\<rparr>] 400
     = [''Warning: Forecasted fecal coliform above 400.0 CFU/100mL.'',
        ''Critical: High pollution risk detected. Take action.'']
   \<and> check_alerts (\<lambda>x. ''800.0'')
     [\<lparr>fc_date = 1, forecast_fecal = Fin 800\<rparr>, \<lparr>fc_date = 2, forecast_fecal = NaN\<rparr>] 800 = []"
  using
    check_alerts_spec [of "\<lambda>x. ''400.0''"
      "[\<lparr>fc_date = 1, forecast_fecal = Fin 390\<rparr>, \<lparr>fc_date = 2, forecast_fecal = Fin 410\<rparr>,
        \<lparr>fc_date = 3, forecast_fecal = Fin 790\<rparr>]" 400]
    check_alerts_spec [of "\<lambda>x. ''400.0''"
      "[\<lparr>fc_date = 1, forecast_fecal = Fin 900\<rparr>, \<lparr>fc_date = 2, forecast_fecal = Fin 100\<rparr>,
        \<lparr>fc_date = 3, forecast_fecal = Fin 100\<rparr>]" 400]
    check_alerts_spec [of "\<lambda>x. ''800.0''"
      "[\<lparr>fc_date = 1, forecast_fecal = Fin 800\<rparr>, \<lparr>fc_date = 2, forecast_fecal = NaN\<rparr>]" 800]
  by (simp add: exceeds_def warning_alert_def critical_alert_def)

text \<open>
  Claim C10. For every forecast and every threshold of at most 800, a critical alert in
  the list comes with the warning alert; so under the default threshold 400 the list is
  never the critical alert alone.
\<close>

theorem critical_implies_warning:
  assumes "t \<le> 800"
  shows "(critical_alert \<in> set (check_alerts fmt fc t)
            \<longrightarrow> warning_alert fmt t \<in> set (check_alerts fmt fc t))
         \<and> (t = 400 \<longrightarrow> check_alerts fmt fc t \<noteq> [critical_alert])"
  using assms warning_not_critical [of fmt t] exceeds_mono [of t 800 fc]
  by (auto simp add: check_alerts_eq)

theorem critical_implies_warning_witness:
  "(400::real) \<le> 800
   \<and> critical_alert \<in> set (check_alerts (\<lambda>x. ''400.0'')
        [\<lparr>fc_date = 1, forecast_fecal = Fin 900\<rparr>] 400)
   \<and> warning_alert (\<lambda>x. ''400.0'') 400 \<in> set (check_alerts (\<lambda>x. ''400.0'')
        [\<lparr>fc_date = 1, forecast_fecal = Fin 900\<rparr>] 400)
   \<and> check_alerts (\<lambda>x. ''400.0'') [\<lparr>fc_date = 1, forecast_fecal = Fin 900\<rparr>] 400
        \<noteq> [critical_alert]"
proof -
  have le: "(400::real) \<le> 800" by simp
  have crit: "critical_alert \<in> set (check_alerts (\<lambda>x. ''400.0'')
        [\<lparr>fc_date = 1, forecast_fecal = Fin 900\<rparr>] 400)"
    by (simp add: check_alerts_def)
  show ?thesis
    using le crit
      critical_implies_warning [OF le, of "\<lambda>x. ''400.0''"
        "[\<lparr>fc_date = 1, forecast_fecal = Fin 900\<rparr>]"]
    by simp
qed

section \<open>The trend forecast\<close>

lemma dropna_map_Fin:
  "dropna (map (\<lambda>(a, b). Fin (g a b)) ps) = map (\<lambda>(a, b). g a b) ps"
  by (induction ps) auto

lemma dropna_diff:
  "dropna (diff xs) = map (\<lambda>(a, b). b - a) (zip xs (tl xs))"
  by (cases xs) (simp_all add: dropna_map_Fin)

lemma sum_list_differences:
  "sum_list (map (\<lambda>(a, b). b - a) (zip xs (tl xs))) = (\<Sum>k<length xs - 1. xs ! (k + 1) - xs ! k)"
proof -
  have "sum_list (map (\<lambda>(a, b). b - a) (zip xs (tl xs)))
        = (\<Sum>k = 0..<length xs - 1. map (\<lambda>(a, b). b - a) (zip xs (tl xs)) ! k)"
    by (simp add: sum_list_sum_nth)
  also have "\<dots> = (\<Sum>k = 0..<length xs - 1. xs ! (k + 1) - xs ! k)"
    by (rule sum.cong) (simp_all add: nth_tl)
  finally show ?thesis
    by (simp add: atLeast0LessThan)
qed

lemma trend_is_mean_first_difference:
  assumes "2 \<le> length xs"
  shows "np_mean (dropna (diff xs)) = Fin (mean_first_difference xs)"
proof -
  from assms obtain a b ys where "xs = a # b # ys"
    by (cases xs; cases "tl xs") auto
  then have "map (\<lambda>(a, b). b - a) (zip xs (tl xs)) \<noteq> []"
    and "length (map (\<lambda>(a, b). b - a) (zip xs (tl xs))) = length xs - 1"
    by simp_all
  then show ?thesis
    by (simp only: np_mean_def dropna_diff sum_list_differences mean_first_difference_def
        if_False)
qed

lemma trend_forecaster_ok:
  assumes "2 \<le> length hist"
  shows "trend_forecaster (map date hist) hist = Inr (linear_forecast hist)"
proof -
  from assms have ne: "hist \<noteq> []"
    by auto
  from assms have "np_mean (dropna (diff (map fecal_coliform hist)))
                   = Fin (mean_first_difference (map fecal_coliform hist))"
    by (simp add: trend_is_mean_first_difference)
  with ne show ?thesis
    by (simp add: trend_forecaster_def iloc_last_def index_last_def last_map
        linear_forecast_def)
qed

section \<open>The generated series and the payload\<close>

lemma clip_is_clamp: "clip x 100 1000 = clamp_100_1000 x"
  by (simp add: clip_def clamp_100_1000_def)

lemma clamp_bounds: "100 \<le> clamp_100_1000 x" "clamp_100_1000 x \<le> 1000"
  by (simp_all add: clamp_100_1000_def)

lemma date_range_nth: "k < n \<Longrightarrow> date_range e n ! k = e - int (n - 1 - k)"
  by (simp add: date_range_def del: upt_rec_numeral)

lemma length_date_range: "length (date_range e n) = n"
  by (simp add: date_range_def del: upt_rec_numeral)

lemma series_generator_eq:
  "series_generator w = (date_range (today w) 30, Inr (map (generated_row w) [0..<30]))"
proof -
  have "map (\<lambda>k. \<lparr>date = date_range (today w) 30 ! k,
                   pH = map (normal_pH w) [0..<30] ! k,
                   DO = map (normal_DO w) [0..<30] ! k,
                   rainfall = map (exponential_rain w) [0..<30] ! k,
                   fecal_coliform =
                     map (\<lambda>(c, r). c + r)
                       (zip (map (\<lambda>x. clip x 100 1000) (map (lognormal_fecal w) [0..<30]))
                            (map (\<lambda>r. r * 0.5) (map (exponential_rain w) [0..<30]))) ! k\<rparr>)
          [0..<30]
        = map (generated_row w) [0..<30]"
    by (rule map_cong [OF refl])
      (simp add: date_range_nth generated_row_def clip_is_clamp del: upt_rec_numeral)
  then show ?thesis
    by (simp add: series_generator_def DataFrame_def length_date_range Let_def
        del: upt_rec_numeral)
qed

lemma date_range_dates: "date_range (today w) 30 = map date (map (generated_row w) [0..<30])"
  by (rule nth_equalityI)
    (simp_all add: length_date_range date_range_nth generated_row_def del: upt_rec_numeral)

lemma generated_history:
  "length (map (generated_row w) [0..<30]) = 30"
  "map (generated_row w) [0..<30] \<noteq> []"
  "last (map (generated_row w) [0..<30]) = generated_row w 29"
  "k < 30 \<Longrightarrow> map (generated_row w) [0..<30] ! k = generated_row w k"
  by (simp_all add: last_map del: upt_rec_numeral)

text \<open>
  \<open>generate_data\<close> fails only if the image cannot be encoded; otherwise it returns the
  generated series, its forecast, the encoded image and the last fecal value.
\<close>

lemma generate_data_body_cases:
  obtains (failed) e where
      "imsave_b64 w (severity_image (fecal_coliform (generated_row w 29))) = Inl e"
      "generate_data_body w = Inl e"
  | (succeeded) s fc where
      "imsave_b64 w (severity_image (fecal_coliform (generated_row w 29))) = Inr s"
      "trend_forecaster (map date (map (generated_row w) [0..<30]))
         (map (generated_row w) [0..<30]) = Inr fc"
      "generate_data_body w =
         Inr \<lparr>historical_data = map (generated_row w) [0..<30], forecast_data = fc,
              satellite_image_base64 = s,
              latest_fecal = fecal_coliform (generated_row w 29)\<rparr>"
proof -
  let ?hist = "map (generated_row w) [0..<30]"
  have "2 \<le> length ?hist"
    by (simp del: upt_rec_numeral)
  then obtain fc where fc: "trend_forecaster (map date ?hist) ?hist = Inr fc"
    using trend_forecaster_ok by blast
  have latest: "iloc_last (map fecal_coliform ?hist) = Inr (fecal_coliform (generated_row w 29))"
    using generated_history(2,3) [of w] by (simp add: iloc_last_def last_map del: upt_rec_numeral)
  show thesis
  proof (cases "imsave_b64 w (severity_image (fecal_coliform (generated_row w 29)))")
    case (Inl e)
    with fc latest have "generate_data_body w = Inl e"
      by (simp add: generate_data_body_def series_generator_eq date_range_dates
          del: upt_rec_numeral)
    with Inl show thesis by (rule failed)
  next
    case (Inr s)
    with fc latest have "generate_data_body w =
         Inr \<lparr>historical_data = ?hist, forecast_data = fc, satellite_image_base64 = s,
              latest_fecal = fecal_coliform (generated_row w 29)\<rparr>"
      by (simp add: generate_data_body_def series_generator_eq date_range_dates
          del: upt_rec_numeral)
    with Inr fc show thesis by (rule succeeded)
  qed
qed

lemma generate_data_body_Inr:
  assumes "generate_data_body w = Inr p"
  shows "historical_data p = map (generated_row w) [0..<30]"
    and "latest_fecal p = fecal_coliform (generated_row w 29)"
    and "imsave_b64 w (severity_image (latest_fecal p)) = Inr (satellite_image_base64 p)"
    and "trend_forecaster (map date (historical_data p)) (historical_data p)
           = Inr (forecast_data p)"
proof -
  have "historical_data p = map (generated_row w) [0..<30]
        \<and> latest_fecal p = fecal_coliform (generated_row w 29)
        \<and> imsave_b64 w (severity_image (latest_fecal p)) = Inr (satellite_image_base64 p)
        \<and> trend_forecaster (map date (historical_data p)) (historical_data p)
             = Inr (forecast_data p)"
  proof (cases w rule: generate_data_body_cases)
    case (failed e)
    with assms show ?thesis by simp
  next
    case (succeeded s fc)
    from succeeded(3) assms have
      "p = \<lparr>historical_data = map (generated_row w) [0..<30], forecast_data = fc,
            satellite_image_base64 = s,
            latest_fecal = fecal_coliform (generated_row w 29)\<rparr>"
      by simp
    with succeeded(1,2) show ?thesis
      by (simp del: upt_rec_numeral)
  qed
  then show "historical_data p = map (generated_row w) [0..<30]"
    and "latest_fecal p = fecal_coliform (generated_row w 29)"
    and "imsave_b64 w (severity_image (latest_fecal p)) = Inr (satellite_image_base64 p)"
    and "trend_forecaster (map date (historical_data p)) (historical_data p)
           = Inr (forecast_data p)"
    by blast+
qed

lemma calm_world_succeeds: "\<exists>p. generate_data_body calm_world = Inr p"
  by (cases calm_world rule: generate_data_body_cases) (simp_all add: calm_world_def)

lemma calm_row: "k < 30 \<Longrightarrow> map (generated_row calm_world) [0..<30] ! k =
  \<lparr>date = 71 + int k, pH = 7, DO = 8, rainfall = 4, fecal_coliform = 102\<rparr>"
  by (simp add: generated_row_def calm_world_def clamp_100_1000_def del: upt_rec_numeral)

section \<open>Claims about the forecast\<close>

text \<open>
  Claim C1. For every history of at least two observations the forecaster returns exactly
  three points, dated on the three days after the last historical date, with values
  \<open>last + trend * i\<close> for \<open>i = 1, 2, 3\<close>, where \<open>last\<close> is the fecal value of the final
  observation and \<open>trend\<close> is the mean of the \<open>n - 1\<close> consecutive differences. Each
  value is computed from \<open>last\<close> and the horizon \<open>i\<close>, and nothing clamps it. The forecast
  in every payload of \<open>generate_data\<close> is this forecast of the payload's history.
\<close>

theorem trend_forecaster_linear:
  assumes "2 \<le> length hist"
  shows "trend_forecaster (map date hist) hist =
           Inr [\<lparr>fc_date = date (last hist) + 1,
                 forecast_fecal =
                   Fin (fecal_coliform (last hist)
                        + mean_first_difference (map fecal_coliform hist) * 1)\<rparr>,
                \<lparr>fc_date = date (last hist) + 2,
                 forecast_fecal =
                   Fin (fecal_coliform (last hist)
                        + mean_first_difference (map fecal_coliform hist) * 2)\<rparr>,
                \<lparr>fc_date = date (last hist) + 3,
                 forecast_fecal =
                   Fin (fecal_coliform (last hist)
                        + mean_first_difference (map fecal_coliform hist) * 3)\<rparr>]
         \<and> mean_first_difference (map fecal_coliform hist)
             = (\<Sum>k<length hist - 1. fecal_coliform (hist ! (k + 1)) - fecal_coliform (hist ! k))
               / real (length hist - 1)
         \<and> (generate_data_body w = Inr p \<and> historical_data p = hist
              \<longrightarrow> forecast_data p = linear_forecast hist)"
proof (intro conjI impI)
  from assms have "trend_forecaster (map date hist) hist = Inr (linear_forecast hist)"
    by (rule trend_forecaster_ok)
  then show "trend_forecaster (map date hist) hist =
           Inr [\<lparr>fc_date = date (last hist) + 1,
                 forecast_fecal =
                   Fin (fecal_coliform (last hist)
                        + mean_first_difference (map fecal_coliform hist) * 1)\<rparr>,
                \<lparr>fc_date = date (last hist) + 2,
                 forecast_fecal =
                   Fin (fecal_coliform (last hist)
                        + mean_first_difference (map fecal_coliform hist) * 2)\<rparr>,
                \<lparr>fc_date = date (last hist) + 3,
                 forecast_fecal =
                   Fin (fecal_coliform (last hist)
                        + mean_first_difference (map fecal_coliform hist) * 3)\<rparr>]"
    by (simp add: linear_forecast_def)
next
  have "(\<Sum>k<length hist - 1. map fecal_coliform hist ! (k + 1) - map fecal_coliform hist ! k)
        = (\<Sum>k<length hist - 1. fecal_coliform (hist ! (k + 1)) - fecal_coliform (hist ! k))"
    by (rule sum.cong) simp_all
  then show "mean_first_difference (map fecal_coliform hist)
             = (\<Sum>k<length hist - 1. fecal_coliform (hist ! (k + 1)) - fecal_coliform (hist ! k))
               / real (length hist - 1)"
    by (simp add: mean_first_difference_def)
next
  assume "generate_data_body w = Inr p \<and> historical_data p = hist"
  then have "trend_forecaster (map date hist) hist = Inr (forecast_data p)"
    using generate_data_body_Inr(4) [of w p] by simp
  with assms show "forecast_data p = linear_forecast hist"
    by (simp add: trend_forecaster_ok)
qed

theorem trend_forecaster_linear_witness:
  "2 \<le> length [\<lparr>date = 10, pH = 7, DO = 8, rainfall = 0, fecal_coliform = 100\<rparr>,
                \<lparr>date = 11, pH = 7, DO = 8, rainfall = 2, fecal_coliform = 130\<rparr>,
                \<lparr>date = 12, pH = 7, DO = 8, rainfall = 0, fecal_coliform = 20\<rparr>]
   \<and> trend_forecaster [10, 11, 12]
        [\<lparr>date = 10, pH = 7, DO = 8, rainfall = 0, fecal_coliform = 100\<rparr>,
         \<lparr>date = 11, pH = 7, DO = 8, rainfall = 2, fecal_coliform = 130\<rparr>,
         \<lparr>date = 12, pH = 7, DO = 8, rainfall = 0, fecal_coliform = 20\<rparr>]
       = Inr [\<lparr>fc_date = 13, forecast_fecal = Fin (- 20)\<rparr>,
              \<lparr>fc_date = 14, forecast_fecal = Fin (- 60)\<rparr>,
              \<lparr>fc_date = 15, forecast_fecal = Fin (- 100)\<rparr>]
   \<and> (\<exists>p. generate_data_body calm_world = Inr p
         \<and> forecast_data p = [\<lparr>fc_date = 101, forecast_fecal = Fin 102\<rparr>,
                               \<lparr>fc_date = 102, forecast_fecal = Fin 102\<rparr>,
                               \<lparr>fc_date = 103, forecast_fecal = Fin 102\<rparr>])"
proof -
  let ?h = "[\<lparr>date = 10, pH = 7, DO = 8, rainfall = 0, fecal_coliform = 100\<rparr>,
             \<lparr>date = 11, pH = 7, DO = 8, rainfall = 2, fecal_coliform = 130\<rparr>,
             \<lparr>date = 12::int, pH = 7::real, DO = 8::real, rainfall = 0::real,
              fecal_coliform = 20::real\<rparr>]"
  have len: "2 \<le> length ?h" by simp
  have "mean_first_difference (map fecal_coliform ?h) = - 40"
    by (simp add: mean_first_difference_def lessThan_Suc numeral_2_eq_2)
  then have first: "trend_forecaster [10, 11, 12] ?h
       = Inr [\<lparr>fc_date = 13, forecast_fecal = Fin (- 20)\<rparr>,
              \<lparr>fc_date = 14, forecast_fecal = Fin (- 60)\<rparr>,
              \<lparr>fc_date = 15, forecast_fecal = Fin (- 100)\<rparr>]"
    using trend_forecaster_linear [OF len] by simp
  from calm_world_succeeds obtain p where p: "generate_data_body calm_world = Inr p"
    by blast
  let ?g = "historical_data p"
  from p have g: "?g = map (generated_row calm_world) [0..<30]"
    by (rule generate_data_body_Inr(1))
  then have glen: "2 \<le> length ?g"
    by (simp del: upt_rec_numeral)
  from g have row: "\<And>k. k < 30 \<Longrightarrow> ?g ! k
      = \<lparr>date = 71 + int k, pH = 7, DO = 8, rainfall = 4, fecal_coliform = 102\<rparr>"
    by (simp only: calm_row)
  from g have l30: "length ?g = 30"
    by (simp del: upt_rec_numeral)
  then have lst: "last ?g = ?g ! 29"
    by (subst last_conv_nth) auto
  have "(\<Sum>k<length ?g - 1. fecal_coliform (?g ! (k + 1)) - fecal_coliform (?g ! k)) = 0"
    by (rule sum.neutral) (simp add: l30 row)
  with trend_forecaster_linear [OF glen, of calm_world p] p
  have "mean_first_difference (map fecal_coliform ?g) = 0"
    and "forecast_data p = linear_forecast ?g"
    by simp_all
  then have "forecast_data p = [\<lparr>fc_date = 101, forecast_fecal = Fin 102\<rparr>,
                               \<lparr>fc_date = 102, forecast_fecal = Fin 102\<rparr>,
                               \<lparr>fc_date = 103, forecast_fecal = Fin 102\<rparr>]"
    by (simp add: linear_forecast_def lst row)
  with p first len show ?thesis
    by blast
qed

text \<open>
  Claim C4, as the code has it. There is no InsufficientHistory error in the program. On
  the empty history the forecaster fails with the IndexError of \<open>iloc[-1]\<close>. On a history
  of exactly one observation it does not fail: the column of differences is empty, its
  mean is NaN, and the forecaster returns three points on the next three days whose
  values are NaN.
\<close>

theorem trend_forecaster_short_history:
  "trend_forecaster dates [] = Inl (IndexError ''single positional indexer is out-of-bounds'')
   \<and> trend_forecaster [date ob] [ob] =
       Inr [\<lparr>fc_date = date ob + 1, forecast_fecal = NaN\<rparr>,
            \<lparr>fc_date = date ob + 2, forecast_fecal = NaN\<rparr>,
            \<lparr>fc_date = date ob + 3, forecast_fecal = NaN\<rparr>]"
  by (simp add: trend_forecaster_def iloc_last_def index_last_def np_mean_def)

theorem trend_forecaster_short_history_witness:
  "trend_forecaster [] [] = Inl (IndexError ''single positional indexer is out-of-bounds'')
   \<and> trend_forecaster [42] [\<lparr>date = 42, pH = 7, DO = 8, rainfall = 3, fecal_coliform = 850\<rparr>] =
       Inr [\<lparr>fc_date = 43, forecast_fecal = NaN\<rparr>,
            \<lparr>fc_date = 44, forecast_fecal = NaN\<rparr>,
            \<lparr>fc_date = 45, forecast_fecal = NaN\<rparr>]"
  using trend_forecaster_short_history
    [of "[]" "\<lparr>date = 42, pH = 7, DO = 8, rainfall = 3, fecal_coliform = 850\<rparr>"]
  by simp

text \<open>
  The claim as the specification states it fails on a history of one observation: the
  forecaster returns a forecast and no error.
\<close>

theorem single_observation_forecast_counterexample:
  "trend_forecaster [5] [\<lparr>date = 5, pH = 7, DO = 8, rainfall = 0, fecal_coliform = 100\<rparr>] =
     Inr [\<lparr>fc_date = 6, forecast_fecal = NaN\<rparr>,
          \<lparr>fc_date = 7, forecast_fecal = NaN\<rparr>,
          \<lparr>fc_date = 8, forecast_fecal = NaN\<rparr>]"
  by (simp add: trend_forecaster_def iloc_last_def index_last_def np_mean_def)

section \<open>Claims about the generated series\<close>

text \<open>
  Claim C3. Every generated observation has as fecal value the log-normal draw clamped to
  the closed range from 100 to 1000, plus 0.5 times the rainfall of the same day: the
  clamp comes first and the rainfall term is added to the clamped value. So with
  non-negative rainfall the fecal value is at least 100, and with enough rainfall (more
  than 1800) it is above 1000.
\<close>

theorem fecal_coliform_clamp_then_rainfall:
  "\<exists>hist. snd (series_generator w) = Inr hist \<and> length hist = 30
     \<and> (\<forall>k<30. rainfall (hist ! k) = exponential_rain w k
          \<and> fecal_coliform (hist ! k)
              = clamp_100_1000 (lognormal_fecal w k) + 0.5 * rainfall (hist ! k)
          \<and> 100 \<le> clamp_100_1000 (lognormal_fecal w k)
          \<and> clamp_100_1000 (lognormal_fecal w k) \<le> 1000
          \<and> (0 \<le> rainfall (hist ! k) \<longrightarrow> 100 \<le> fecal_coliform (hist ! k))
          \<and> (1800 < rainfall (hist ! k) \<longrightarrow> 1000 < fecal_coliform (hist ! k)))"
proof (intro exI conjI allI impI)
  show "snd (series_generator w) = Inr (map (generated_row w) [0..<30])"
    by (simp add: series_generator_eq del: upt_rec_numeral)
  show "length (map (generated_row w) [0..<30]) = 30"
    by (rule generated_history(1))
next
  fix k :: nat
  assume k: "k < 30"
  let ?ob = "map (generated_row w) [0..<30] ! k"
  from k have ob: "?ob = generated_row w k"
    by (rule generated_history(4))
  show "rainfall ?ob = exponential_rain w k"
    by (simp add: ob generated_row_def)
  show fc: "fecal_coliform ?ob = clamp_100_1000 (lognormal_fecal w k) + 0.5 * rainfall ?ob"
    by (simp add: ob generated_row_def)
  show lo: "100 \<le> clamp_100_1000 (lognormal_fecal w k)"
    and "clamp_100_1000 (lognormal_fecal w k) \<le> 1000"
    by (rule clamp_bounds)+
  {
    assume "0 \<le> rainfall ?ob"
    with fc lo show "100 \<le> fecal_coliform ?ob"
      by linarith
  }
  {
    assume "1800 < rainfall ?ob"
    with fc lo show "1000 < fecal_coliform ?ob"
      by linarith
  }
qed

theorem fecal_coliform_clamp_then_rainfall_witness:
  "\<exists>hist. snd (series_generator storm_world) = Inr hist
     \<and> (0::real) \<le> 2000 \<and> rainfall (hist ! 0) = 2000
     \<and> fecal_coliform (hist ! 0) = 1100 \<and> 1000 < fecal_coliform (hist ! 0)
     \<and> 100 \<le> fecal_coliform (hist ! 0)"
proof -
  from fecal_coliform_clamp_then_rainfall [of storm_world]
  obtain hist where hist: "snd (series_generator storm_world) = Inr hist"
    and row: "\<forall>k<30. rainfall (hist ! k) = exponential_rain storm_world k
          \<and> fecal_coliform (hist ! k)
              = clamp_100_1000 (lognormal_fecal storm_world k) + 0.5 * rainfall (hist ! k)"
    by blast
  from row have "rainfall (hist ! 0) = 2000" "fecal_coliform (hist ! 0) = 1100"
    by (simp_all add: storm_world_def calm_world_def clamp_100_1000_def)
  with hist show ?thesis
    by simp
qed

text \<open>
  Claim C7. The generated history has exactly 30 observations, indexed by the dates it
  was built from; each date is one day after the date before it, and the last date is
  today. It is the history of every payload that \<open>generate_data\<close> returns.
\<close>

theorem history_thirty_consecutive_days:
  "\<exists>hist. series_generator w = (map date hist, Inr hist) \<and> length hist = 30
     \<and> (\<forall>k<29. date (hist ! (k + 1)) = date (hist ! k) + 1)
     \<and> date (last hist) = today w
     \<and> (\<forall>k<30. date (hist ! k) = today w - 29 + int k)
     \<and> (\<forall>p. generate_data_body w = Inr p \<longrightarrow> historical_data p = hist)"
proof (intro exI conjI allI impI)
  show "series_generator w
        = (map date (map (generated_row w) [0..<30]), Inr (map (generated_row w) [0..<30]))"
    by (simp only: series_generator_eq date_range_dates)
  show "length (map (generated_row w) [0..<30]) = 30"
    by (rule generated_history(1))
  show "date (last (map (generated_row w) [0..<30])) = today w"
    by (simp add: generated_history(3) generated_row_def del: upt_rec_numeral)
next
  fix k :: nat
  assume "k < 29"
  then show "date (map (generated_row w) [0..<30] ! (k + 1))
             = date (map (generated_row w) [0..<30] ! k) + 1"
    by (simp add: generated_row_def del: upt_rec_numeral)
next
  fix k :: nat
  assume "k < 30"
  then show "date (map (generated_row w) [0..<30] ! k) = today w - 29 + int k"
    by (simp add: generated_row_def del: upt_rec_numeral)
next
  fix p
  assume "generate_data_body w = Inr p"
  then show "historical_data p = map (generated_row w) [0..<30]"
    by (rule generate_data_body_Inr(1))
qed

theorem history_thirty_consecutive_days_witness:
  "\<exists>p. generate_data_body calm_world = Inr p
     \<and> length (historical_data p) = 30
     \<and> (0::nat) < 29
     \<and> date (historical_data p ! 0) = 71
     \<and> date (historical_data p ! 1) = 72
     \<and> date (historical_data p ! 29) = 100
     \<and> date (last (historical_data p)) = 100"
proof -
  from calm_world_succeeds obtain p where p: "generate_data_body calm_world = Inr p"
    by blast
  from history_thirty_consecutive_days [of calm_world] p
  have "length (historical_data p) = 30"
    and "date (last (historical_data p)) = today calm_world"
    and "\<forall>k<30. date (historical_data p ! k) = today calm_world - 29 + int k"
    by auto
  with p show ?thesis
    by (simp add: calm_world_def)
qed

section \<open>Claims about the data service\<close>

lemma generate_data_Inr:
  "fst (generate_data w lg) = Inr p \<longleftrightarrow> generate_data_body w = Inr p"
  by (simp add: generate_data_def split: sum.splits)

lemma json_dumps_generated:
  assumes "generate_data_body w = Inr p"
  shows "json_dumps p = Inl (TypeError ''Object of type Timestamp is not JSON serializable'')"
proof -
  from assms have "historical_data p = map (generated_row w) [0..<30]"
    by (rule generate_data_body_Inr(1))
  then have "historical_data p \<noteq> []"
    by (simp only: generated_history(2) not_False_eq_True)
  then show ?thesis
    by (simp add: json_dumps_def)
qed

lemma get_water_quality_data_failed:
  assumes "generate_data_body w = Inl e"
  shows "get_water_quality_data w lg =
           (Inr \<lparr>body = ErrorContent (''Internal Server Error: '' @ str e), status_code = 500\<rparr>,
            lg @ [''Error in generate_data: '' @ str e, ''Error in /data endpoint: '' @ str e])"
  using assms
  by (simp add: get_water_quality_data_def generate_data_def endpoint_handler_def
      JSONResponse_def)

lemma get_water_quality_data_generated:
  assumes "generate_data_body w = Inr p"
  shows "get_water_quality_data w lg =
           (Inr \<lparr>body = ErrorContent
                   ''Internal Server Error: Object of type Timestamp is not JSON serializable'',
                 status_code = 500\<rparr>,
            lg @ [''Error in /data endpoint: Object of type Timestamp is not JSON serializable''])"
  using assms json_dumps_generated [OF assms]
  by (simp add: get_water_quality_data_def generate_data_def endpoint_handler_def
      JSONResponse_def)

lemma broken_image_world_fails:
  "generate_data_body broken_image_world = Inl (OtherError ''cannot write image'')"
  by (cases broken_image_world rule: generate_data_body_cases)
    (simp_all add: broken_image_world_def calm_world_def)

text \<open>
  Claim C5, what the code does. The endpoint raises nothing and always returns the error
  envelope with status 500. When a step inside \<open>generate_data\<close> raises, the exception is
  logged there and again at the endpoint, and the envelope carries its message. When no
  step raises, \<open>generate_data\<close> returns the whole payload, but rendering it on line 70
  raises the TypeError of the Timestamp dates, which the endpoint logs and reports in the
  same envelope: the payload is never returned.
\<close>

theorem data_service_returns_error_envelope:
  "(generate_data_body w = Inl e \<longrightarrow>
      get_water_quality_data w lg =
        (Inr \<lparr>body = ErrorContent (''Internal Server Error: '' @ str e), status_code = 500\<rparr>,
         lg @ [''Error in generate_data: '' @ str e, ''Error in /data endpoint: '' @ str e]))
   \<and> (generate_data_body w = Inr p \<longrightarrow>
      fst (generate_data w lg) = Inr p
      \<and> get_water_quality_data w lg =
        (Inr \<lparr>body = ErrorContent
                ''Internal Server Error: Object of type Timestamp is not JSON serializable'',
              status_code = 500\<rparr>,
         lg @ [''Error in /data endpoint: Object of type Timestamp is not JSON serializable'']))
   \<and> (\<exists>r m. fst (get_water_quality_data w lg) = Inr r
          \<and> body r = ErrorContent m \<and> status_code r = 500)"
proof (intro conjI impI)
  assume "generate_data_body w = Inl e"
  then show "get_water_quality_data w lg =
        (Inr \<lparr>body = ErrorContent (''Internal Server Error: '' @ str e), status_code = 500\<rparr>,
         lg @ [''Error in generate_data: '' @ str e, ''Error in /data endpoint: '' @ str e])"
    by (rule get_water_quality_data_failed)
next
  assume p: "generate_data_body w = Inr p"
  then show "fst (generate_data w lg) = Inr p"
    by (simp add: generate_data_Inr)
  from p show "get_water_quality_data w lg =
        (Inr \<lparr>body = ErrorContent
                ''Internal Server Error: Object of type Timestamp is not JSON serializable'',
              status_code = 500\<rparr>,
         lg @ [''Error in /data endpoint: Object of type Timestamp is not JSON serializable''])"
    by (rule get_water_quality_data_generated)
next
  show "\<exists>r m. fst (get_water_quality_data w lg) = Inr r
          \<and> body r = ErrorContent m \<and> status_code r = 500"
  proof (cases "generate_data_body w")
    case (Inl e)
    then show ?thesis
      by (simp add: get_water_quality_data_failed)
  next
    case (Inr q)
    then show ?thesis
      by (simp add: get_water_quality_data_generated)
  qed
qed

theorem data_service_returns_error_envelope_witness:
  "generate_data_body broken_image_world = Inl (OtherError ''cannot write image'')
   \<and> get_water_quality_data broken_image_world [] =
       (Inr \<lparr>body = ErrorContent ''Internal Server Error: cannot write image'',
             status_code = 500\<rparr>,
        [''Error in generate_data: cannot write image'',
         ''Error in /data endpoint: cannot write image''])
   \<and> (\<exists>p. generate_data_body calm_world = Inr p
         \<and> fst (generate_data calm_world []) = Inr p
         \<and> get_water_quality_data calm_world [] =
              (Inr \<lparr>body = ErrorContent
                      ''Internal Server Error: Object of type Timestamp is not JSON serializable'',
                    status_code = 500\<rparr>,
               [''Error in /data endpoint: Object of type Timestamp is not JSON serializable'']))"
proof -
  from calm_world_succeeds obtain pc where pc: "generate_data_body calm_world = Inr pc"
    by blast
  from broken_image_world_fails
    data_service_returns_error_envelope
      [of broken_image_world "OtherError ''cannot write image''" "[]"]
  have 1: "get_water_quality_data broken_image_world [] =
       (Inr \<lparr>body = ErrorContent ''Internal Server Error: cannot write image'',
             status_code = 500\<rparr>,
        [''Error in generate_data: cannot write image'',
         ''Error in /data endpoint: cannot write image''])"
    by simp
  from pc data_service_returns_error_envelope [of calm_world _ "[]" pc]
  have 2: "fst (generate_data calm_world []) = Inr pc
     \<and> get_water_quality_data calm_world [] =
              (Inr \<lparr>body = ErrorContent
                      ''Internal Server Error: Object of type Timestamp is not JSON serializable'',
                    status_code = 500\<rparr>,
               [''Error in /data endpoint: Object of type Timestamp is not JSON serializable''])"
    by simp
  from broken_image_world_fails 1 2 pc show ?thesis
    by blast
qed

text \<open>
  Claim C8. In every payload that \<open>generate_data\<close> returns, \<open>latest_fecal\<close> is the fecal
  value of the last observation of \<open>historical_data\<close>, and the encoded image of the
  payload is the encoding of the severity image of that same value.
\<close>

theorem latest_fecal_is_last_observation:
  assumes "fst (generate_data w lg) = Inr p"
  shows "historical_data p \<noteq> []
         \<and> latest_fecal p = fecal_coliform (last (historical_data p))
         \<and> latest_fecal p = fecal_coliform (historical_data p ! 29)
         \<and> imsave_b64 w (severity_image (latest_fecal p)) = Inr (satellite_image_base64 p)"
proof -
  from assms have p: "generate_data_body w = Inr p"
    by (simp only: generate_data_Inr)
  then have hist: "historical_data p = map (generated_row w) [0..<30]"
    by (rule generate_data_body_Inr(1))
  then have "historical_data p \<noteq> []"
    by (simp only: generated_history(2) not_False_eq_True)
  moreover from p hist have "latest_fecal p = fecal_coliform (last (historical_data p))"
    by (simp only: generate_data_body_Inr(2) generated_history(3))
  moreover from p hist have "latest_fecal p = fecal_coliform (historical_data p ! 29)"
    by (simp add: generate_data_body_Inr(2) generated_history(4) del: upt_rec_numeral)
  moreover from p have
    "imsave_b64 w (severity_image (latest_fecal p)) = Inr (satellite_image_base64 p)"
    by (rule generate_data_body_Inr(3))
  ultimately show ?thesis
    by blast
qed

theorem latest_fecal_is_last_observation_witness:
  "\<exists>p. fst (generate_data calm_world []) = Inr p
       \<and> latest_fecal p = fecal_coliform (last (historical_data p))
       \<and> latest_fecal p = 102
       \<and> severity_image (latest_fecal p) = uniform_image green
       \<and> satellite_image_base64 p = ''iVBORw0KGgo=''"
proof -
  from calm_world_succeeds obtain p where p: "generate_data_body calm_world = Inr p"
    by blast
  then have gen: "fst (generate_data calm_world []) = Inr p"
    by (simp add: generate_data_Inr)
  from latest_fecal_is_last_observation [OF gen]
  have last: "latest_fecal p = fecal_coliform (last (historical_data p))"
    and img: "imsave_b64 calm_world (severity_image (latest_fecal p))
              = Inr (satellite_image_base64 p)"
    by blast+
  from p have "latest_fecal p = fecal_coliform (generated_row calm_world 29)"
    by (rule generate_data_body_Inr(2))
  then have v: "latest_fecal p = 102"
    by (simp add: generated_row_def calm_world_def clamp_100_1000_def)
  then have sev: "severity_image (latest_fecal p) = uniform_image green"
    by (simp add: severity_image_low)
  from img have "satellite_image_base64 p = ''iVBORw0KGgo=''"
    by (simp add: calm_world_def)
  with gen last v sev show ?thesis
    by blast
qed

end
